theory Spec2Isabelle
  imports Main
begin

section \<open>JavaScript values, promises and the clock\<close>

text \<open>
  The service of \<^verbatim>\<open>keycloak.services.ts\<close> is a class with mutable fields whose methods talk
  to three collaborators: the browser's session storage, the timer queue and the keycloak-js
  client. The embedding passes the whole of that as one explicit state. A value that
  crosses a promise is a \<open>js_value\<close>; an \<open>Error\<close> object is its message.
\<close>

datatype js_value =
    Undefined
  | StringValue string
  | BoolValue bool
  | ErrorValue string
  | TypeErrorValue string

text \<open>A promise settles once: \<open>resolve\<close> and \<open>reject\<close> on a settled promise do nothing.\<close>

datatype promise = Pending | Fulfilled js_value | Rejected js_value

definition resolve :: "promise \<Rightarrow> js_value \<Rightarrow> promise" where
  "resolve p v = (case p of Pending \<Rightarrow> Fulfilled v | Fulfilled w \<Rightarrow> Fulfilled w | Rejected e \<Rightarrow> Rejected e)"

definition reject :: "promise \<Rightarrow> js_value \<Rightarrow> promise" where
  "reject p e = (case p of Pending \<Rightarrow> Rejected e | Fulfilled w \<Rightarrow> Fulfilled w | Rejected d \<Rightarrow> Rejected d)"

text \<open>How a call of the provider (\<open>init\<close>, \<open>updateToken\<close>, \<open>logout\<close>) ends.\<close>

datatype 'a provider_outcome = Resolves 'a | RejectsWith js_value

text \<open>How a synchronous method ends: it returns, or throws.\<close>

datatype 'a completion = Return 'a | Throw js_value

text \<open>\<^verbatim>\<open>Math.ceil(new Date().getTime() / 1000)\<close>, from the clock's milliseconds.\<close>

definition ceil_seconds :: "int \<Rightarrow> int" where
  "ceil_seconds ms = - ((- ms) div 1000)"

text \<open>Truthiness of an optional string (\<^verbatim>\<open>x || undefined\<close>, \<^verbatim>\<open>if (x)\<close>): absent and empty are falsy.\<close>

definition truthy :: "string option \<Rightarrow> bool" where
  "truthy x = (case x of None \<Rightarrow> False | Some s \<Rightarrow> s \<noteq> [])"

definition or_undefined :: "string option \<Rightarrow> string option" where
  "or_undefined x = (if truthy x then x else None)"

definition or_empty :: "string option \<Rightarrow> string" where
  "or_empty x = (case x of None \<Rightarrow> [] | Some s \<Rightarrow> s)"

section \<open>Session storage\<close>

datatype SessionStorageKeys =
    KeyCloakToken
  | KeyCloakRefreshToken
  | KeyCloakIdToken
  | SessionSynced
  | PreventStorageSync
  | SiteminderLogoutUrl

type_synonym session_storage = "SessionStorageKeys \<Rightarrow> string option"

text \<open>
  Modelled from the spec: \<^verbatim>\<open>ConfigHelper\<close> (util/config-helper) is not among the sources.
  The spec gives the Session Store Adapter as \<open>get(key) -> string|undefined\<close>,
  \<open>set(key, value)\<close>, \<open>remove(key)\<close> and \<open>clear()\<close>; a boolean is stored as its string.
\<close>

definition getFromSession :: "session_storage \<Rightarrow> SessionStorageKeys \<Rightarrow> string option" where
  "getFromSession s k = s k"

definition addToSession :: "SessionStorageKeys \<Rightarrow> string \<Rightarrow> session_storage \<Rightarrow> session_storage" where
  "addToSession k v s = s(k \<mapsto> v)"

definition removeFromSession :: "SessionStorageKeys \<Rightarrow> session_storage \<Rightarrow> session_storage" where
  "removeFromSession k s = s(k := None)"

definition ConfigHelper_clearSession :: "session_storage \<Rightarrow> session_storage" where
  "ConfigHelper_clearSession s = Map.empty"

definition string_of_bool :: "bool \<Rightarrow> string" where
  "string_of_bool b = (if b then ''true'' else ''false'')"

section \<open>The keycloak-js client, as the service sees it\<close>

record KeycloakTokenParsed =
  exp :: "int option"

record KeycloakLoginOptions =
  lo_idpHint :: "string option"
  lo_redirectUri :: "string option"
  lo_prompt :: "string option"

text \<open>A call that reaches the SDK's own \<open>login\<close>, with the options it receives.\<close>

datatype provider_login = ProviderLogin "KeycloakLoginOptions option"

datatype OnLoad = LoginRequired | CheckSso

record KeycloakInitOptions =
  opt_onLoad :: OnLoad
  opt_checkLoginIframe :: bool
  opt_timeSkew :: int
  opt_token :: "string option"
  opt_refreshToken :: "string option"
  opt_idToken :: "string option"
  opt_pkceMethod :: string

text \<open>
  The fields of a \<open>KeycloakInstance\<close> that the service reads. The provider writes them
  (tokens, parsed expiry, skew, \<open>authenticated\<close>); the service only replaces \<open>login\<close>.
  An \<open>authenticated\<close> that is undefined reads as \<open>False\<close>.
\<close>

record KeycloakInstance =
  kc_config :: "string option"
  kc_token :: "string option"
  kc_refreshToken :: "string option"
  kc_idToken :: "string option"
  kc_tokenParsed :: "KeycloakTokenParsed option"
  kc_refreshTokenParsed :: "KeycloakTokenParsed option"
  kc_timeSkew :: "int option"
  kc_authenticated :: bool
  kc_login :: "KeycloakLoginOptions option \<Rightarrow> provider_login"

text \<open>\<^verbatim>\<open>new Keycloak(config)\<close>: no tokens yet, and the SDK's own \<open>login\<close>.\<close>

definition new_Keycloak :: "string option \<Rightarrow> KeycloakInstance" where
  "new_Keycloak config =
     \<lparr> kc_config = config, kc_token = None, kc_refreshToken = None, kc_idToken = None,
       kc_tokenParsed = None, kc_refreshTokenParsed = None, kc_timeSkew = None,
       kc_authenticated = False, kc_login = ProviderLogin \<rparr>"

section \<open>Decoded token, user profile, auth store\<close>

text \<open>
  \<open>parsedToken\<close> is typed \<open>any\<close> in the source; these are the claims \<open>getUserInfo\<close> reads.
  \<open>jwt_other_keys\<close> counts the object's remaining keys, for \<^verbatim>\<open>Object.keys(...).length\<close>.
\<close>

record KCToken =
  jwt_lastname :: "string option"
  jwt_firstname :: "string option"
  jwt_email :: "string option"
  jwt_realm_access :: "string list option option"
  jwt_sub :: "string option"
  jwt_username :: "string option"
  jwt_name :: "string option"
  jwt_loginSource :: "string option"
  jwt_other_keys :: nat

record KCUserProfile =
  lastName :: "string option"
  firstName :: "string option"
  email :: "string option"
  roles :: "string list option"
  keycloakGuid :: "string option"
  userName :: "string option"
  fullName :: "string option"
  loginSource :: "string option"

text \<open>
  Modelled from the spec: the auth store (stores) is not among the sources. The spec
  gives the Auth State Projection as setters for access token, id token, refresh token,
  user identifier and login source, and a clear operation.
\<close>

record AuthStore =
  as_kcToken :: string
  as_idToken :: string
  as_refreshToken :: string
  as_kcGuid :: string
  as_loginSource :: string

definition AuthStore_clearSession :: "AuthStore \<Rightarrow> AuthStore" where
  "AuthStore_clearSession a =
     \<lparr> as_kcToken = [], as_idToken = [], as_refreshToken = [], as_kcGuid = [], as_loginSource = [] \<rparr>"

section \<open>The service and its environment\<close>

text \<open>A pending \<open>setTimeout\<close> of \<open>scheduleRefreshToken\<close>: its delay and the early margin its callback captured.\<close>

record refresh_timer =
  delay_ms :: int
  early_ms :: int

text \<open>
  The fields of \<open>KeyCloakService\<close> (\<open>kc\<close>, \<open>parsedToken\<close>, \<open>counter\<close>, \<open>timerId\<close>), then the
  environment: session storage, the pending timers with the next handle \<open>setTimeout\<close>
  returns, whether a Pinia instance is active, the auth store, and the configured URL.
\<close>

record state =
  kc :: "KeycloakInstance option"
  parsedToken :: "KCToken option"
  counter :: nat
  timerId :: nat
  storage :: session_storage
  timers :: "(nat \<times> refresh_timer) list"
  nextTimerId :: nat
  activePinia :: bool
  authStore :: "AuthStore option"
  keycloakConfigUrl :: "string option"

definition REFRESH_ATTEMPT_INTERVAL :: int where
  "REFRESH_ATTEMPT_INTERVAL = 10"

definition setTimeout :: "refresh_timer \<Rightarrow> state \<Rightarrow> nat \<times> state" where
  "setTimeout tm st =
     (nextTimerId st,
      st\<lparr> timers := timers st @ [(nextTimerId st, tm)], nextTimerId := Suc (nextTimerId st) \<rparr>)"

definition clearTimeout :: "nat \<Rightarrow> state \<Rightarrow> state" where
  "clearTimeout i st = st\<lparr> timers := filter (\<lambda>p. fst p \<noteq> i) (timers st) \<rparr>"

subsection \<open>clearSession, syncSessionStorage\<close>

definition clearSession :: "state \<Rightarrow> state" where
  "clearSession st =
     (let st1 = (if activePinia st
                 then (case authStore st of
                         Some a \<Rightarrow> st\<lparr> authStore := Some (AuthStore_clearSession a) \<rparr>
                       | None \<Rightarrow> st)
                 else st)
      in st1\<lparr> storage :=
               removeFromSession KeyCloakRefreshToken
                 (removeFromSession KeyCloakIdToken
                   (removeFromSession KeyCloakToken (storage st1))) \<rparr>)"

definition store_if_truthy :: "SessionStorageKeys \<Rightarrow> string option \<Rightarrow> session_storage \<Rightarrow> session_storage" where
  "store_if_truthy k v s = (if truthy v then addToSession k (or_empty v) s else s)"

definition syncSessionStorage :: "state \<Rightarrow> state" where
  "syncSessionStorage st =
     (case kc st of
        Some k \<Rightarrow>
          st\<lparr> storage :=
                addToSession SessionSynced (string_of_bool True)
                  (store_if_truthy KeyCloakIdToken (kc_idToken k)
                    (store_if_truthy KeyCloakRefreshToken (kc_refreshToken k)
                      (store_if_truthy KeyCloakToken (kc_token k) (storage st)))) \<rparr>
      | None \<Rightarrow> st\<lparr> storage := addToSession SessionSynced (string_of_bool False) (storage st) \<rparr>)"

subsection \<open>scheduleRefreshToken, scheduleRefreshTimer\<close>

definition RefreshTokenExpired :: js_value where
  "RefreshTokenExpired = ErrorValue ''Refresh Token Expired. No more token refreshes''"

text \<open>
  \<open>refreshTokenExpiresIn\<close>: \<open>-1\<close> unless the instance, its skew and its parsed refresh
  token are there. A parsed refresh token without \<open>exp\<close> makes the sum \<open>NaN\<close>, here
  \<open>None\<close>, and \<^verbatim>\<open>NaN < 0\<close> is false. \<open>t1\<close> is the clock's reading in milliseconds.
\<close>

definition refreshTokenExpiresIn :: "int \<Rightarrow> state \<Rightarrow> int option" where
  "refreshTokenExpiresIn t1 st =
     (case kc st of
        None \<Rightarrow> Some (- 1)
      | Some k \<Rightarrow>
          (case kc_timeSkew k of
             None \<Rightarrow> Some (- 1)
           | Some skew \<Rightarrow>
               (case kc_refreshTokenParsed k of
                  None \<Rightarrow> Some (- 1)
                | Some rp \<Rightarrow>
                    (case exp rp of
                       None \<Rightarrow> None
                     | Some r \<Rightarrow> Some (r - ceil_seconds t1 + skew)))))"

text \<open>
  \<open>expiresIn\<close>: \<open>-1\<close> unless the instance, its parsed token, a truthy \<open>exp\<close> (present and
  not \<open>0\<close>) and its skew are there. \<open>t2\<close> is the second reading of the clock.
\<close>

definition expiresIn :: "int \<Rightarrow> state \<Rightarrow> int" where
  "expiresIn t2 st =
     (case kc st of
        None \<Rightarrow> - 1
      | Some k \<Rightarrow>
          (case kc_tokenParsed k of
             None \<Rightarrow> - 1
           | Some tp \<Rightarrow>
               (case exp tp of
                  None \<Rightarrow> - 1
                | Some e \<Rightarrow>
                    (if e = 0 then - 1
                     else (case kc_timeSkew k of
                             None \<Rightarrow> - 1
                           | Some skew \<Rightarrow> e - ceil_seconds t2 + skew)))))"

definition js_negative :: "int option \<Rightarrow> bool" where
  "js_negative x = (case x of None \<Rightarrow> False | Some n \<Rightarrow> n < 0)"

text \<open>
  The synchronous part of \<open>scheduleRefreshToken\<close>: the two checks, then \<open>setTimeout\<close>,
  whose handle goes to \<open>timerId\<close>. No pending timer is cleared on the way.
\<close>

definition scheduleRefreshToken :: "int \<Rightarrow> int \<Rightarrow> int \<Rightarrow> state \<Rightarrow> unit completion \<times> state" where
  "scheduleRefreshToken refreshEarlyTimeinMilliseconds t1 t2 st =
     (if js_negative (refreshTokenExpiresIn t1 st) then (Throw RefreshTokenExpired, st)
      else if expiresIn t2 st < 0 then (Throw RefreshTokenExpired, st)
      else
        (let refreshInMilliSeconds = expiresIn t2 st * 1000 - refreshEarlyTimeinMilliseconds;
             (i, st1) = setTimeout \<lparr> delay_ms = refreshInMilliSeconds,
                                    early_ms = refreshEarlyTimeinMilliseconds \<rparr> st
         in (Return (), st1\<lparr> timerId := i \<rparr>)))"

definition scheduleRefreshTimer :: "int \<Rightarrow> int \<Rightarrow> int \<Rightarrow> state \<Rightarrow> unit completion \<times> state" where
  "scheduleRefreshTimer refreshEarlyTime t1 t2 st =
     scheduleRefreshToken (max REFRESH_ATTEMPT_INTERVAL refreshEarlyTime * 1000) t1 t2 st"

subsection \<open>getUserInfo\<close>

text \<open>
  Modelled from the spec: \<^verbatim>\<open>decodeKCToken\<close> (util/common-util) is not among the sources.
  The spec gives the Token Decoder as a pure function of the raw access token, or of its
  absence. \<open>getUserInfo\<close> calls it without an argument, so what it decodes is the stored
  access token; the decoder itself is the parameter \<open>decodeKCToken\<close> of the functions
  below.
\<close>

type_synonym token_decoder = "string option \<Rightarrow> KCToken option"

definition present :: "'a option \<Rightarrow> nat" where
  "present x = (case x of None \<Rightarrow> 0 | Some v \<Rightarrow> 1)"

definition object_keys_length :: "KCToken \<Rightarrow> nat" where
  "object_keys_length t =
     present (jwt_lastname t) + present (jwt_firstname t) + present (jwt_email t) +
     present (jwt_realm_access t) + present (jwt_sub t) + present (jwt_username t) +
     present (jwt_name t) + present (jwt_loginSource t) + jwt_other_keys t"

text \<open>\<^verbatim>\<open>!this.parsedToken || !Object.keys(this.parsedToken).length\<close>\<close>

definition cache_is_empty :: "KCToken option \<Rightarrow> bool" where
  "cache_is_empty p = (case p of None \<Rightarrow> True | Some t \<Rightarrow> object_keys_length t = 0)"

definition profile_of :: "KCToken option \<Rightarrow> KCUserProfile" where
  "profile_of p =
     \<lparr> lastName = Option.bind p jwt_lastname,
       firstName = Option.bind p jwt_firstname,
       email = Option.bind p jwt_email,
       roles = Option.bind (Option.bind p jwt_realm_access) (\<lambda>r. r),
       keycloakGuid = Option.bind p jwt_sub,
       userName = Option.bind p jwt_username,
       fullName = Option.bind p jwt_name,
       loginSource = Option.bind p jwt_loginSource \<rparr>"

definition getUserInfo :: "token_decoder \<Rightarrow> state \<Rightarrow> KCUserProfile \<times> state" where
  "getUserInfo decodeKCToken st =
     (let st1 = (if cache_is_empty (parsedToken st)
                 then st\<lparr> parsedToken := decodeKCToken (getFromSession (storage st) KeyCloakToken) \<rparr>
                 else st)
      in (profile_of (parsedToken st1), st1))"

subsection \<open>syncSessionAndScheduleTokenRefresh, initSession\<close>

definition token_value :: "string option \<Rightarrow> js_value" where
  "token_value x = (case x of None \<Rightarrow> Undefined | Some s \<Rightarrow> StringValue s)"

definition is_authenticated :: "state \<Rightarrow> bool" where
  "is_authenticated st = (case kc st of None \<Rightarrow> False | Some k \<Rightarrow> kc_authenticated k)"

text \<open>
  An \<open>async\<close> method without \<open>await\<close>: its body runs at the call, and its promise is
  fulfilled with what the body returns or rejected with what it throws.
\<close>

definition syncSessionAndScheduleTokenRefresh :: "bool \<Rightarrow> int \<Rightarrow> int \<Rightarrow> state \<Rightarrow> promise \<times> state" where
  "syncSessionAndScheduleTokenRefresh isScheduleRefresh t1 t2 st =
     (if is_authenticated st then
        (let st1 = syncSessionStorage st;
             current = token_value (Option.bind (kc st1) kc_token)
         in if isScheduleRefresh then
              (case scheduleRefreshTimer 0 t1 t2 st1 of
                 (Throw e, st2) \<Rightarrow> (Rejected e, st2)
               | (Return u, st2) \<Rightarrow> (Fulfilled current, st2))
            else (Fulfilled current, st1))
      else (Fulfilled (ErrorValue ''NOT_AUTHENTICATED''), clearSession st))"

definition initSession :: "token_decoder \<Rightarrow> int \<Rightarrow> int \<Rightarrow> state \<Rightarrow> promise \<times> state" where
  "initSession decodeKCToken t1 t2 st =
     (let st1 =
            (case authStore st of
               None \<Rightarrow> st
             | Some a \<Rightarrow>
                 (let a1 = a\<lparr> as_kcToken := or_empty (Option.bind (kc st) kc_token),
                              as_idToken := or_empty (Option.bind (kc st) kc_idToken),
                              as_refreshToken := or_empty (Option.bind (kc st) kc_refreshToken) \<rparr>;
                      (userInfo, st') = getUserInfo decodeKCToken (st\<lparr> authStore := Some a1 \<rparr>)
                  in st'\<lparr> authStore := Some (a1\<lparr> as_kcGuid := or_empty (keycloakGuid userInfo),
                                                as_loginSource := or_empty (loginSource userInfo) \<rparr>) \<rparr>));
          (p, st2) = syncSessionAndScheduleTokenRefresh True t1 t2 st1
      in ((case p of Rejected e \<Rightarrow> Rejected e | Fulfilled v \<Rightarrow> Fulfilled Undefined | Pending \<Rightarrow> Pending), st2))"

subsection \<open>refreshToken\<close>

text \<open>\<^verbatim>\<open>this.kc?.tokenParsed?.exp\<close> and \<^verbatim>\<open>this.kc.timeSkew\<close>; a number is truthy when it is there and not \<open>0\<close>.\<close>

definition tokenParsed_exp :: "state \<Rightarrow> int option" where
  "tokenParsed_exp st = Option.bind (Option.bind (kc st) kc_tokenParsed) exp"

definition timeSkew_of :: "state \<Rightarrow> int option" where
  "timeSkew_of st = Option.bind (kc st) kc_timeSkew"

definition truthy_number :: "int option \<Rightarrow> bool" where
  "truthy_number x = (case x of None \<Rightarrow> False | Some n \<Rightarrow> n \<noteq> 0)"

definition number_of :: "int option \<Rightarrow> int" where
  "number_of x = (case x of None \<Rightarrow> 0 | Some n \<Rightarrow> n)"

text \<open>
  The synchronous part of \<open>refreshToken\<close>: the promise the caller gets, the \<open>minValidity\<close>
  of the \<open>updateToken\<close> call it starts (if it starts one), and the state. The chain on
  \<open>updateToken\<close> is neither returned nor awaited, so the caller's promise is fulfilled when
  the body ends. \<open>number_of\<close> is reached only behind the guard, where both numbers are there.
\<close>

definition refreshToken :: "bool \<Rightarrow> int \<Rightarrow> state \<Rightarrow> promise \<times> int option \<times> state" where
  "refreshToken isForceRefresh t st =
     (if \<not> isForceRefresh \<and> (\<not> truthy_number (tokenParsed_exp st) \<or> \<not> truthy_number (timeSkew_of st))
      then (Fulfilled Undefined, None, st)
      else
        (let tokenExpiresIn =
               (if isForceRefresh then - 1
                else number_of (tokenParsed_exp st) - ceil_seconds t + number_of (timeSkew_of st) + 100)
         in (case kc st of
               Some k \<Rightarrow> (Fulfilled Undefined, Some tokenExpiresIn, st)
             | None \<Rightarrow> (Fulfilled (ErrorValue ''Could not refresh Token:No Kc Instance''), None, st))))"

text \<open>
  The chain \<^verbatim>\<open>updateToken(...).then(...).catch(...)\<close> once \<open>updateToken\<close> has settled: the
  promise the chain ends in, the promises that are dropped on the way (of \<open>initSession\<close>,
  of \<open>clearSession\<close>), and the state. Nothing holds a handler on any of them.
\<close>

definition refreshToken_settled ::
    "token_decoder \<Rightarrow> bool provider_outcome \<Rightarrow> int \<Rightarrow> int \<Rightarrow> state \<Rightarrow> promise \<times> promise list \<times> state" where
  "refreshToken_settled decodeKCToken outcome t1 t2 st =
     (case outcome of
        Resolves refreshed \<Rightarrow>
          (if refreshed then
             (let (p, st1) = initSession decodeKCToken t1 t2 st in (Fulfilled Undefined, [p], st1))
           else (Fulfilled Undefined, [], st))
      | RejectsWith e \<Rightarrow>
          (Fulfilled (ErrorValue ''Could not refresh Token''), [Fulfilled Undefined], clearSession st))"

subsection \<open>verifyRoles\<close>

text \<open>
  \<^verbatim>\<open>wanted.some(role => userInfo.roles.includes(role))\<close>: on an empty list the callback
  never runs; on a non-empty one it reads \<open>includes\<close> of \<open>userInfo.roles\<close>, a \<open>TypeError\<close>
  when the profile has no roles array.
\<close>

fun some_role_included :: "string list option \<Rightarrow> string list \<Rightarrow> bool completion" where
  "some_role_included r [] = Return False"
| "some_role_included None (role # rest) =
     Throw (TypeErrorValue ''Cannot read properties of undefined (reading includes)'')"
| "some_role_included (Some rs) (role # rest) =
     (if role \<in> set rs then Return True else some_role_included (Some rs) rest)"

definition negated :: "bool completion \<Rightarrow> bool completion" where
  "negated c = (case c of Return b \<Rightarrow> Return (\<not> b) | Throw e \<Rightarrow> Throw e)"

definition verifyRoles ::
    "token_decoder \<Rightarrow> string list option \<Rightarrow> string list option \<Rightarrow> state \<Rightarrow> bool completion \<times> state" where
  "verifyRoles decodeKCToken allowedRoles disabledRoles st =
     (case (allowedRoles, disabledRoles) of
        (None, None) \<Rightarrow> (Return True, st)
      | (Some allowed, d) \<Rightarrow>
          (let (userInfo, st1) = getUserInfo decodeKCToken st
           in (some_role_included (roles userInfo) allowed, st1))
      | (None, Some disabled) \<Rightarrow>
          (let (userInfo, st1) = getUserInfo decodeKCToken st
           in (negated (some_role_included (roles userInfo) disabled), st1)))"

subsection \<open>The timer's callback\<close>

text \<open>
  A pending timer \<open>i\<close> fires: the timer queue drops it and runs the callback, which counts
  the attempt and calls \<^verbatim>\<open>this.kc!.updateToken(-1)\<close>. The result is the \<open>minValidity\<close> of
  that call; without an instance the call is a \<open>TypeError\<close>.
\<close>

definition refreshTimer_fired :: "nat \<Rightarrow> state \<Rightarrow> int completion \<times> state" where
  "refreshTimer_fired i st =
     (let st1 = st\<lparr> timers := filter (\<lambda>p. fst p \<noteq> i) (timers st), counter := Suc (counter st) \<rparr>
      in (case kc st1 of
            Some k \<Rightarrow> (Return (- 1), st1)
          | None \<Rightarrow> (Throw (TypeErrorValue ''Cannot read properties of undefined (reading updateToken)''), st1)))"

text \<open>
  The chain on that \<open>updateToken\<close> once it has settled. A throw of \<open>scheduleRefreshToken\<close>
  inside \<open>then\<close> rejects the promise \<open>catch\<close> hangs on, so it ends in the same
  \<^verbatim>\<open>clearTimeout(this.timerId)\<close> as a rejected \<open>updateToken\<close>.
\<close>

definition refreshTimer_settled :: "int \<Rightarrow> bool provider_outcome \<Rightarrow> int \<Rightarrow> int \<Rightarrow> state \<Rightarrow> state" where
  "refreshTimer_settled refreshEarlyTimeinMilliseconds outcome t1 t2 st =
     (case outcome of
        Resolves refreshed \<Rightarrow>
          (if refreshed then
             (case scheduleRefreshToken refreshEarlyTimeinMilliseconds t1 t2 (syncSessionStorage st) of
                (Return u, st1) \<Rightarrow> st1
              | (Throw e, st1) \<Rightarrow> clearTimeout (timerId st1) st1)
           else st)
      | RejectsWith e \<Rightarrow> clearTimeout (timerId st) st)"

subsection \<open>initializeKeyCloak, initializeToken\<close>

definition stored_init_options :: "OnLoad \<Rightarrow> session_storage \<Rightarrow> KeycloakInitOptions" where
  "stored_init_options onLoad s =
     \<lparr> opt_onLoad = onLoad, opt_checkLoginIframe = False, opt_timeSkew = 0,
       opt_token = or_undefined (getFromSession s KeyCloakToken),
       opt_refreshToken = or_undefined (getFromSession s KeyCloakRefreshToken),
       opt_idToken = or_undefined (getFromSession s KeyCloakIdToken),
       opt_pkceMethod = ''S256'' \<rparr>"

text \<open>
  The replacement of \<open>login\<close>: the hint is written into the options when there are
  options, and the call goes on to the SDK's own \<open>login\<close>.
\<close>

definition login_with_hint ::
    "string \<Rightarrow> (KeycloakLoginOptions option \<Rightarrow> provider_login) \<Rightarrow> KeycloakLoginOptions option \<Rightarrow> provider_login" where
  "login_with_hint idpHint kcLogin options =
     (case options of
        Some opts \<Rightarrow> kcLogin (Some (opts\<lparr> lo_idpHint := Some idpHint \<rparr>))
      | None \<Rightarrow> kcLogin None)"

text \<open>
  \<open>initializeKeyCloak\<close> returns the promise of \<open>kc.init(kcOptions)\<close>: the result is the
  options of that call and the state in which it is made.
\<close>

definition initializeKeyCloak :: "string \<Rightarrow> state \<Rightarrow> KeycloakInitOptions \<times> state" where
  "initializeKeyCloak idpHint st =
     (let st1 = clearSession st;
          k = new_Keycloak (keycloakConfigUrl st1);
          kcLogin = kc_login k;
          st2 = st1\<lparr> kc := Some (k\<lparr> kc_login := login_with_hint idpHint kcLogin \<rparr>) \<rparr>
      in (stored_init_options LoginRequired (storage st1), st2))"

definition initializeToken :: "bool \<Rightarrow> state \<Rightarrow> promise \<times> KeycloakInitOptions \<times> state" where
  "initializeToken forceLogin st =
     (Pending,
      stored_init_options (if forceLogin then LoginRequired else CheckSso) (storage st),
      st\<lparr> kc := Some (new_Keycloak (keycloakConfigUrl st)),
          storage := addToSession SessionSynced (string_of_bool False) (storage st) \<rparr>)"

definition js_to_string :: "js_value \<Rightarrow> string" where
  "js_to_string v =
     (case v of
        Undefined \<Rightarrow> ''undefined''
      | StringValue s \<Rightarrow> s
      | BoolValue b \<Rightarrow> string_of_bool b
      | ErrorValue m \<Rightarrow> ''Error: '' @ m
      | TypeErrorValue m \<Rightarrow> ''TypeError: '' @ m)"

text \<open>\<open>resolve\<close> with a promise: the outer promise, if still pending, takes its state.\<close>

definition resolve_with :: "promise \<Rightarrow> promise \<Rightarrow> promise" where
  "resolve_with p q = (case p of Pending \<Rightarrow> q | Fulfilled w \<Rightarrow> Fulfilled w | Rejected e \<Rightarrow> Rejected e)"

definition initializeToken_settled ::
    "bool \<Rightarrow> bool provider_outcome \<Rightarrow> int \<Rightarrow> int \<Rightarrow> promise \<Rightarrow> state \<Rightarrow> promise \<times> state" where
  "initializeToken_settled isScheduleRefresh outcome t1 t2 p st =
     (case outcome of
        Resolves authenticated \<Rightarrow>
          (let (q, st1) = syncSessionAndScheduleTokenRefresh isScheduleRefresh t1 t2 st
           in (resolve_with p q, st1))
      | RejectsWith e \<Rightarrow> (reject p (ErrorValue (''Could not Initialize KC'' @ js_to_string e)), st))"

subsection \<open>logout\<close>

text \<open>\<^verbatim>\<open>s.includes(sub)\<close>\<close>

fun js_includes :: "string \<Rightarrow> string \<Rightarrow> bool" where
  "js_includes [] sub = (sub = [])"
| "js_includes (c # cs) sub = (take (length sub) (c # cs) = sub \<or> js_includes cs sub)"

text \<open>
  \<^verbatim>\<open>s.replace(/(https?:\/\/)|(\/)+/g, '$1$2')\<close>: a scheme with its two slashes stays, any
  other run of slashes becomes one slash.
\<close>

function replace_slashes :: "string \<Rightarrow> string" where
  "replace_slashes s =
     (if s = [] then []
      else if take 7 s = ''http://'' then ''http://'' @ replace_slashes (drop 7 s)
      else if take 8 s = ''https://'' then ''https://'' @ replace_slashes (drop 8 s)
      else if hd s = CHR ''/'' then CHR ''/'' # replace_slashes (dropWhile (\<lambda>c. c = CHR ''/'') s)
      else hd s # replace_slashes (tl s))"
  by pat_completeness auto
termination
proof (relation "measure length")
  show "wf (measure length)" by simp
next
  fix s :: string
  assume "s \<noteq> []" "take 7 s = ''http://''"
  then show "(drop 7 s, s) \<in> measure length" by (cases s) auto
next
  fix s :: string
  assume "s \<noteq> []" "take 8 s = ''https://''"
  then show "(drop 8 s, s) \<in> measure length" by (cases s) auto
next
  fix s :: string
  assume ne: "s \<noteq> []" and sl: "hd s = CHR ''/''"
  then obtain cs where s: "s = CHR ''/'' # cs" by (cases s) auto
  have "length (dropWhile (\<lambda>c. c = CHR ''/'') cs) \<le> length cs" by (rule length_dropWhile_le)
  then show "(dropWhile (\<lambda>c. c = CHR ''/'') s, s) \<in> measure length" using s by simp
next
  fix s :: string
  assume "s \<noteq> []"
  then show "(tl s, s) \<in> measure length" by (cases s) auto
qed

declare replace_slashes.simps [simp del]

text \<open>What \<open>logout\<close> keeps for its callbacks: the caller's URL and the stored gateway URL.\<close>

record logout_closure =
  lc_redirectUrl :: "string option"
  lc_siteminderLogoutUrl :: "string option"

datatype provider_logout = KcLogout string

text \<open>
  The synchronous part of \<open>logout\<close>: the promise the caller gets, and, when a token is
  stored, the options of the \<open>kc.init\<close> call it starts with what its callbacks keep.
\<close>

definition logout :: "string option \<Rightarrow> state \<Rightarrow> promise \<times> (KeycloakInitOptions \<times> logout_closure) option \<times> state" where
  "logout redirectUrl st =
     (let token = or_undefined (getFromSession (storage st) KeyCloakToken)
      in if truthy token then
           (let st1 = st\<lparr> kc := Some (new_Keycloak (keycloakConfigUrl st)) \<rparr>;
                kcOptions = stored_init_options LoginRequired (storage st1);
                siteminderLogoutUrl = or_undefined (getFromSession (storage st1) SiteminderLogoutUrl);
                st2 = st1\<lparr> storage := ConfigHelper_clearSession (storage st1) \<rparr>;
                st3 = st2\<lparr> storage := addToSession PreventStorageSync (string_of_bool True) (storage st2) \<rparr>
            in (Pending,
                Some (kcOptions, \<lparr> lc_redirectUrl = redirectUrl, lc_siteminderLogoutUrl = siteminderLogoutUrl \<rparr>),
                st3))
         else (Fulfilled Undefined, None, st))"

text \<open>
  The callback on \<open>kc.init\<close>. \<open>origin\<close> and \<open>app_path\<close> are \<^verbatim>\<open>window.location.origin\<close> and
  \<^verbatim>\<open>process.env.VUE_APP_PATH\<close> as the template renders them. After \<^verbatim>\<open>resolve()\<close> for an
  unauthenticated instance the callback goes on to \<open>kc.logout\<close>.
\<close>

definition logout_redirect :: "string \<Rightarrow> string \<Rightarrow> logout_closure \<Rightarrow> string" where
  "logout_redirect origin app_path c =
     (let redirectUrl = (if truthy (lc_redirectUrl c) then or_empty (lc_redirectUrl c) else origin @ app_path)
      in (case lc_siteminderLogoutUrl c of
            Some sm \<Rightarrow>
              (if js_includes sm ''http''
               then sm @ ''?returl='' @ replace_slashes redirectUrl @ ''&retnow=1''
               else redirectUrl)
          | None \<Rightarrow> redirectUrl))"

definition logout_init_settled ::
    "string \<Rightarrow> string \<Rightarrow> logout_closure \<Rightarrow> bool provider_outcome \<Rightarrow> promise \<Rightarrow> state
     \<Rightarrow> promise \<times> provider_logout option" where
  "logout_init_settled origin app_path c outcome p st =
     (case outcome of
        Resolves authenticated \<Rightarrow>
          (let p1 = (if \<not> authenticated then resolve p Undefined else p)
           in (case kc st of
                 Some k \<Rightarrow> (p1, Some (KcLogout (logout_redirect origin app_path c)))
               | None \<Rightarrow> (p1, None)))
      | RejectsWith e \<Rightarrow> (reject p e, None))"

text \<open>The callbacks on \<open>kc.logout\<close>.\<close>

definition logout_logout_settled :: "unit provider_outcome \<Rightarrow> promise \<Rightarrow> promise" where
  "logout_logout_settled outcome p =
     (case outcome of
        Resolves u \<Rightarrow> resolve p Undefined
      | RejectsWith e \<Rightarrow> reject p e)"

text \<open>
  A whole \<open>logout\<close>: the call, then \<open>kc.init\<close> and \<open>kc.logout\<close> settling as given. The result
  is the caller's promise at the end and the state.
\<close>

definition logout_run ::
    "string \<Rightarrow> string \<Rightarrow> string option \<Rightarrow> bool provider_outcome \<Rightarrow> unit provider_outcome \<Rightarrow> state
     \<Rightarrow> promise \<times> state" where
  "logout_run origin app_path redirectUrl init_outcome logout_outcome st =
     (case logout redirectUrl st of
        (p, None, st1) \<Rightarrow> (p, st1)
      | (p, Some (kcOptions, c), st1) \<Rightarrow>
          (case logout_init_settled origin app_path c init_outcome p st1 of
             (p1, None) \<Rightarrow> (p1, st1)
           | (p1, Some call) \<Rightarrow> (logout_logout_settled logout_outcome p1, st1)))"

subsection \<open>A whole refreshToken\<close>

text \<open>
  The call, then \<open>updateToken\<close> settling as given: the caller's promise, the promise
  the chain ends in (if the call reached the provider), the dropped promises, the state.
\<close>

definition refreshToken_run ::
    "token_decoder \<Rightarrow> bool \<Rightarrow> bool provider_outcome \<Rightarrow> int \<Rightarrow> int \<Rightarrow> int \<Rightarrow> state
     \<Rightarrow> promise \<times> promise option \<times> promise list \<times> state" where
  "refreshToken_run decodeKCToken isForceRefresh outcome t t1 t2 st =
     (case refreshToken isForceRefresh t st of
        (p, None, st1) \<Rightarrow> (p, None, [], st1)
      | (p, Some minValidity, st1) \<Rightarrow>
          (case refreshToken_settled decodeKCToken outcome t1 t2 st1 of
             (q, dropped, st2) \<Rightarrow> (p, Some q, dropped, st2)))"

section \<open>States for the examples\<close>

text \<open>
  The service as its field initialisers leave it, in a page with nothing stored and
  nothing pending; \<open>setTimeout\<close> hands out handles from \<open>1\<close>.
\<close>

definition initial_state :: state where
  "initial_state =
     \<lparr> kc = None, parsedToken = None, counter = 0, timerId = 0,
       storage = Map.empty, timers = [], nextTimerId = 1,
       activePinia = False, authStore = None, keycloakConfigUrl = None \<rparr>"

text \<open>
  An authenticated instance with tokens \<open>A\<close>, \<open>R\<close>, \<open>I\<close>, the given expiry of the access
  token and of the refresh token (seconds), and the given skew.
\<close>

definition signed_in_kc :: "int \<Rightarrow> int \<Rightarrow> int \<Rightarrow> KeycloakInstance" where
  "signed_in_kc tokenExp refreshExp skew =
     (new_Keycloak None)
       \<lparr> kc_token := Some ''A'', kc_refreshToken := Some ''R'', kc_idToken := Some ''I'',
         kc_tokenParsed := Some \<lparr> exp = Some tokenExp \<rparr>,
         kc_refreshTokenParsed := Some \<lparr> exp = Some refreshExp \<rparr>,
         kc_timeSkew := Some skew, kc_authenticated := True \<rparr>"

definition signed_in :: "int \<Rightarrow> int \<Rightarrow> int \<Rightarrow> state" where
  "signed_in tokenExp refreshExp skew = initial_state\<lparr> kc := Some (signed_in_kc tokenExp refreshExp skew) \<rparr>"

text \<open>A decoder for the examples: the claims of token \<open>s\<close> are its subject \<open>s\<close> and no roles.\<close>

definition subject_decoder :: token_decoder where
  "subject_decoder raw =
     (case raw of
        None \<Rightarrow> None
      | Some s \<Rightarrow>
          Some \<lparr> jwt_lastname = None, jwt_firstname = None, jwt_email = None,
                 jwt_realm_access = None, jwt_sub = Some s, jwt_username = None,
                 jwt_name = None, jwt_loginSource = None, jwt_other_keys = 0 \<rparr>)"

text \<open>The same instance after the provider has issued access token \<open>B\<close>.\<close>

definition signed_in_B :: state where
  "signed_in_B = initial_state\<lparr> kc := Some ((signed_in_kc 2000 5000 0)\<lparr> kc_token := Some ''B'' \<rparr>) \<rparr>"

text \<open>A page whose session storage holds access token \<open>A\<close> and nothing else.\<close>

definition stored_A :: state where
  "stored_A = initial_state\<lparr> storage := [KeyCloakToken \<mapsto> ''A''] \<rparr>"

text \<open>A login attempt made through the service's instance, if it has one.\<close>

definition login_through :: "state \<Rightarrow> KeycloakLoginOptions option \<Rightarrow> provider_login option" where
  "login_through st options = (case kc st of None \<Rightarrow> None | Some k \<Rightarrow> Some (kc_login k options))"

text \<open>The handles of the pending timers are distinct and below the next handle.\<close>

definition timers_ok :: "state \<Rightarrow> bool" where
  "timers_ok st = (distinct (map fst (timers st)) \<and> list_all (\<lambda>p. fst p < nextTimerId st) (timers st))"

text \<open>The signed-in service whose parsed refresh token carries no \<open>exp\<close>.\<close>

definition signed_in_no_refresh_exp :: state where
  "signed_in_no_refresh_exp =
     initial_state\<lparr> kc := Some ((signed_in_kc 2000 5000 0)\<lparr> kc_refreshTokenParsed := Some \<lparr> exp = None \<rparr> \<rparr>) \<rparr>"

text \<open>The signed-in service after one \<open>scheduleRefreshTimer()\<close> at second \<open>1000\<close>: one pending timer.\<close>

definition one_timer :: state where
  "one_timer = snd (scheduleRefreshTimer 0 1000000 1000000 (signed_in 2000 5000 0))"

section \<open>Properties\<close>

lemmas example_defs =
  signed_in_def signed_in_kc_def initial_state_def new_Keycloak_def stored_A_def signed_in_B_def

subsection \<open>Frame facts\<close>

lemma kc_syncSessionStorage [simp]: "kc (syncSessionStorage st) = kc st"
  by (simp add: syncSessionStorage_def split: option.splits)

lemma timers_syncSessionStorage [simp]: "timers (syncSessionStorage st) = timers st"
  by (simp add: syncSessionStorage_def split: option.splits)

lemma nextTimerId_syncSessionStorage [simp]: "nextTimerId (syncSessionStorage st) = nextTimerId st"
  by (simp add: syncSessionStorage_def split: option.splits)

lemma parsedToken_syncSessionStorage [simp]: "parsedToken (syncSessionStorage st) = parsedToken st"
  by (simp add: syncSessionStorage_def split: option.splits)

lemma timers_clearSession [simp]: "timers (clearSession st) = timers st"
  by (simp add: clearSession_def Let_def split: option.splits)

lemma parsedToken_clearSession [simp]: "parsedToken (clearSession st) = parsedToken st"
  by (simp add: clearSession_def Let_def split: option.splits)

lemma refreshTokenExpiresIn_sync [simp]:
  "refreshTokenExpiresIn t (syncSessionStorage st) = refreshTokenExpiresIn t st"
  by (simp add: refreshTokenExpiresIn_def)

lemma expiresIn_sync [simp]: "expiresIn t (syncSessionStorage st) = expiresIn t st"
  by (simp add: expiresIn_def)

lemma storage_syncSessionStorage:
  assumes "kc st = Some k"
  shows "storage (syncSessionStorage st) SessionSynced = Some ''true''"
    and "storage (syncSessionStorage st) KeyCloakToken =
           (if truthy (kc_token k) then kc_token k else storage st KeyCloakToken)"
    and "storage (syncSessionStorage st) KeyCloakRefreshToken =
           (if truthy (kc_refreshToken k) then kc_refreshToken k else storage st KeyCloakRefreshToken)"
    and "storage (syncSessionStorage st) KeyCloakIdToken =
           (if truthy (kc_idToken k) then kc_idToken k else storage st KeyCloakIdToken)"
  using assms
  by (auto simp: syncSessionStorage_def addToSession_def store_if_truthy_def string_of_bool_def
      truthy_def or_empty_def split: option.splits)

lemma storage_clearSession:
  "storage (clearSession st) KeyCloakToken = None"
  "storage (clearSession st) KeyCloakRefreshToken = None"
  "storage (clearSession st) KeyCloakIdToken = None"
  by (simp_all add: clearSession_def removeFromSession_def Let_def split: option.splits)

lemma authStore_clearSession:
  "authStore (clearSession st) =
     (if activePinia st then map_option AuthStore_clearSession (authStore st) else authStore st)"
  by (simp add: clearSession_def Let_def split: option.splits)

subsection \<open>Scheduling\<close>

lemma scheduleRefreshToken_cases:
  "scheduleRefreshToken early t1 t2 st =
     (if js_negative (refreshTokenExpiresIn t1 st) \<or> expiresIn t2 st < 0
      then (Throw RefreshTokenExpired, st)
      else (Return (),
            st\<lparr> timers := timers st @ [(nextTimerId st, \<lparr> delay_ms = expiresIn t2 st * 1000 - early, early_ms = early \<rparr>)],
                nextTimerId := Suc (nextTimerId st),
                timerId := nextTimerId st \<rparr>))"
  by (simp add: scheduleRefreshToken_def setTimeout_def Let_def)

lemma length_filter_remove1:
  "distinct (map fst xs) \<Longrightarrow> i \<in> fst ` set xs \<Longrightarrow> Suc (length (filter (\<lambda>p. fst p \<noteq> i) xs)) = length xs"
proof (induction xs)
  case Nil
  then show ?case by simp
next
  case (Cons x xs)
  show ?case
  proof (cases "fst x = i")
    case True
    with Cons.prems have "i \<notin> fst ` set xs" by auto
    then have "filter (\<lambda>p. fst p \<noteq> i) xs = xs" by (auto simp: filter_id_conv)
    with True show ?thesis by simp
  next
    case False
    with Cons show ?thesis by auto
  qed
qed

lemma timers_refreshTimer_fired:
  "timers (snd (refreshTimer_fired i st)) = filter (\<lambda>p. fst p \<noteq> i) (timers st)"
  by (simp add: refreshTimer_fired_def Let_def split: option.splits)

lemma length_timers_settled:
  "length (timers (refreshTimer_settled early outcome t1 t2 st)) \<le> Suc (length (timers st))"
  by (auto simp: refreshTimer_settled_def scheduleRefreshToken_cases clearTimeout_def
      intro: le_SucI split: provider_outcome.splits)

text \<open>The handles stay distinct under every operation on the timers.\<close>

lemma timers_ok_initial_state: "timers_ok initial_state"
  by (simp add: timers_ok_def initial_state_def)

lemma timers_ok_filter:
  "timers_ok st \<Longrightarrow> timers_ok (st\<lparr> timers := filter P (timers st) \<rparr>)"
  by (auto simp: timers_ok_def list_all_iff distinct_map_filter)

lemma timers_ok_clearTimeout: "timers_ok st \<Longrightarrow> timers_ok (clearTimeout i st)"
  by (auto simp: clearTimeout_def timers_ok_def list_all_iff distinct_map_filter)

lemma timers_ok_syncSessionStorage: "timers_ok st \<Longrightarrow> timers_ok (syncSessionStorage st)"
  by (simp add: timers_ok_def)

lemma timers_ok_scheduleRefreshToken:
  "timers_ok st \<Longrightarrow> timers_ok (snd (scheduleRefreshToken early t1 t2 st))"
  by (auto simp: scheduleRefreshToken_cases timers_ok_def list_all_iff)

lemma timers_ok_refreshTimer_fired: "timers_ok st \<Longrightarrow> timers_ok (snd (refreshTimer_fired i st))"
  by (auto simp: refreshTimer_fired_def timers_ok_def list_all_iff distinct_map_filter Let_def
      split: option.splits)

lemma timers_ok_refreshTimer_settled:
  assumes "timers_ok st"
  shows "timers_ok (refreshTimer_settled early outcome t1 t2 st)"
proof (cases outcome)
  case (Resolves refreshed)
  have a: "timers_ok (snd (scheduleRefreshToken early t1 t2 (syncSessionStorage st)))"
    using assms by (intro timers_ok_scheduleRefreshToken timers_ok_syncSessionStorage)
  show ?thesis
  proof (cases "scheduleRefreshToken early t1 t2 (syncSessionStorage st)")
    case (Pair c st1)
    with a have "timers_ok st1" by simp
    with Pair Resolves assms show ?thesis
      by (cases c) (simp_all add: refreshTimer_settled_def timers_ok_clearTimeout)
  qed
next
  case (RejectsWith e)
  with assms show ?thesis by (simp add: refreshTimer_settled_def timers_ok_clearTimeout)
qed

lemma one_timer_timers: "timers one_timer = [(1, \<lparr> delay_ms = 990000, early_ms = 10000 \<rparr>)]"
  by (simp add: one_timer_def scheduleRefreshTimer_def scheduleRefreshToken_cases example_defs
      refreshTokenExpiresIn_def expiresIn_def js_negative_def ceil_seconds_def REFRESH_ATTEMPT_INTERVAL_def)

lemma one_timer_ok: "timers_ok one_timer"
  unfolding one_timer_def scheduleRefreshTimer_def
  by (rule timers_ok_scheduleRefreshToken) (simp add: timers_ok_def example_defs)

text \<open>
  Claim C1, as amended. \<open>scheduleRefreshToken\<close> cancels nothing: when it arms a timer, the
  timers pending before are all still pending, the new one is added after them and its
  handle goes to \<open>timerId\<close>. What keeps the count in the refresh chain is that a timer
  which fires is no longer pending: a firing of a pending timer followed by the chain
  on its \<open>updateToken\<close>, whatever the outcome, leaves no more pending timers than there
  were before the firing.
\<close>

theorem refresh_chain_keeps_timer_count:
  "(scheduleRefreshToken early t1 t2 st = (Return (), st') \<longrightarrow>
      timers st' = timers st @ [(nextTimerId st, \<lparr> delay_ms = expiresIn t2 st * 1000 - early, early_ms = early \<rparr>)]
      \<and> timerId st' = nextTimerId st)
   \<and> (timers_ok st \<and> i \<in> fst ` set (timers st) \<longrightarrow>
      length (timers (refreshTimer_settled early outcome t1 t2 (snd (refreshTimer_fired i st))))
        \<le> length (timers st))"
proof (intro conjI impI)
  assume a: "scheduleRefreshToken early t1 t2 st = (Return (), st')"
  then show "timers st' = timers st @ [(nextTimerId st, \<lparr> delay_ms = expiresIn t2 st * 1000 - early, early_ms = early \<rparr>)]"
    by (auto simp: scheduleRefreshToken_cases split: if_splits)
  from a show "timerId st' = nextTimerId st"
    by (auto simp: scheduleRefreshToken_cases split: if_splits)
next
  assume b: "timers_ok st \<and> i \<in> fst ` set (timers st)"
  have "length (timers (refreshTimer_settled early outcome t1 t2 (snd (refreshTimer_fired i st))))
          \<le> Suc (length (timers (snd (refreshTimer_fired i st))))"
    by (rule length_timers_settled)
  also have "\<dots> = length (timers st)"
    using b by (simp add: timers_refreshTimer_fired length_filter_remove1 timers_ok_def)
  finally show "length (timers (refreshTimer_settled early outcome t1 t2 (snd (refreshTimer_fired i st))))
        \<le> length (timers st)" .
qed

text \<open>
  Witness for C1: the first scheduling of the signed-in service arms timer \<open>1\<close> alone;
  when it fires and the refresh succeeds, one timer is pending again.
\<close>

theorem refresh_chain_keeps_timer_count_witness:
  "timers one_timer = timers (signed_in 2000 5000 0) @ [(1, \<lparr> delay_ms = 990000, early_ms = 10000 \<rparr>)]
   \<and> timerId one_timer = 1
   \<and> length (timers (refreshTimer_settled 10000 (Resolves True) 1991000 1991000
               (snd (refreshTimer_fired 1 one_timer)))) \<le> 1"
proof -
  have s: "scheduleRefreshToken 10000 1000000 1000000 (signed_in 2000 5000 0) = (Return (), one_timer)"
    by (simp add: one_timer_def scheduleRefreshTimer_def scheduleRefreshToken_cases
        REFRESH_ATTEMPT_INTERVAL_def example_defs
        refreshTokenExpiresIn_def expiresIn_def js_negative_def ceil_seconds_def)
  have e: "expiresIn 1000000 (signed_in 2000 5000 0) = 1000"
    by (simp add: expiresIn_def example_defs ceil_seconds_def)
  have n: "nextTimerId (signed_in 2000 5000 0) = 1"
    by (simp add: example_defs)
  have p: "timers_ok one_timer \<and> 1 \<in> fst ` set (timers one_timer)"
    by (simp add: one_timer_ok one_timer_timers)
  have l: "length (timers one_timer) = 1"
    by (simp add: one_timer_timers)
  have a: "timers one_timer = timers (signed_in 2000 5000 0) @ [(1, \<lparr> delay_ms = 990000, early_ms = 10000 \<rparr>)]
      \<and> timerId one_timer = 1"
    using refresh_chain_keeps_timer_count
      [where early = 10000 and ?t1.0 = 1000000 and ?t2.0 = 1000000 and st = "signed_in 2000 5000 0"
         and st' = one_timer]
      s e n by simp
  have b: "length (timers (refreshTimer_settled 10000 (Resolves True) 1991000 1991000
               (snd (refreshTimer_fired 1 one_timer)))) \<le> length (timers one_timer)"
    using refresh_chain_keeps_timer_count
      [where early = 10000 and ?t1.0 = 1991000 and ?t2.0 = 1991000 and st = one_timer and i = 1
         and outcome = "Resolves True"]
      p by blast
  from a b l show ?thesis by simp
qed


text \<open>
  Counterexample to C1 as stated: two calls of \<open>syncSessionAndScheduleTokenRefresh\<close> on the
  signed-in service, with no timer firing in between, leave two pending refresh timers.
  The first one was not cancelled when the second was armed.
\<close>

theorem second_schedule_leaves_two_timers:
  "timers (snd (syncSessionAndScheduleTokenRefresh True 1000000 1000000
     (snd (syncSessionAndScheduleTokenRefresh True 1000000 1000000 (signed_in 2000 5000 0)))))
   = [(1, \<lparr> delay_ms = 990000, early_ms = 10000 \<rparr>), (2, \<lparr> delay_ms = 990000, early_ms = 10000 \<rparr>)]"
  by (simp add: syncSessionAndScheduleTokenRefresh_def is_authenticated_def example_defs
      scheduleRefreshTimer_def scheduleRefreshToken_cases refreshTokenExpiresIn_def expiresIn_def
      js_negative_def ceil_seconds_def REFRESH_ATTEMPT_INTERVAL_def syncSessionStorage_def)

text \<open>
  Claim C2. When the instance and its clock skew are there and the refresh token's margin
  \<open>refreshTokenExpiry - now + clockSkew\<close> or the access token's margin
  \<open>tokenExpiry - now + clockSkew\<close> is negative, \<open>scheduleRefreshToken\<close> and
  \<open>scheduleRefreshTimer\<close> throw \<open>Refresh Token Expired. No more token refreshes\<close> and leave
  the state, so also the pending timers, as it was.
\<close>

theorem expired_margin_raises_and_arms_nothing:
  assumes "kc st = Some k" and "kc_timeSkew k = Some skew"
    and "(\<exists>r. Option.bind (kc_refreshTokenParsed k) exp = Some r \<and> r - ceil_seconds t1 + skew < 0)
       \<or> (\<exists>e. Option.bind (kc_tokenParsed k) exp = Some e \<and> e - ceil_seconds t2 + skew < 0)"
  shows "scheduleRefreshToken refreshEarlyTimeinMilliseconds t1 t2 st = (Throw RefreshTokenExpired, st)
       \<and> scheduleRefreshTimer refreshEarlyTime t1 t2 st = (Throw RefreshTokenExpired, st)"
  using assms
  by (auto simp: scheduleRefreshToken_def scheduleRefreshTimer_def refreshTokenExpiresIn_def expiresIn_def
      js_negative_def Option.bind_eq_Some_conv split: option.splits)

text \<open>
  Witness for C2: the access token expired at second \<open>1000\<close>, the clock reads second
  \<open>1500\<close>, the skew is \<open>0\<close>.
\<close>

theorem expired_margin_raises_and_arms_nothing_witness:
  "scheduleRefreshToken 10000 1500000 1500000 (signed_in 1000 5000 0)
     = (Throw RefreshTokenExpired, signed_in 1000 5000 0)
   \<and> scheduleRefreshTimer 0 1500000 1500000 (signed_in 1000 5000 0)
     = (Throw RefreshTokenExpired, signed_in 1000 5000 0)"
proof -
  have 1: "kc (signed_in 1000 5000 0) = Some (signed_in_kc 1000 5000 0)"
    by (simp add: signed_in_def)
  have 2: "kc_timeSkew (signed_in_kc 1000 5000 0) = Some 0"
    by (simp add: signed_in_kc_def)
  have 3: "(\<exists>r. Option.bind (kc_refreshTokenParsed (signed_in_kc 1000 5000 0)) exp = Some r
              \<and> r - ceil_seconds 1500000 + 0 < 0)
         \<or> (\<exists>e. Option.bind (kc_tokenParsed (signed_in_kc 1000 5000 0)) exp = Some e
              \<and> e - ceil_seconds 1500000 + 0 < 0)"
    by (simp add: signed_in_kc_def ceil_seconds_def)
  show ?thesis by (rule expired_margin_raises_and_arms_nothing [OF 1 2 3])
qed

subsection \<open>syncSessionAndScheduleTokenRefresh\<close>

text \<open>
  Claim C4, as amended. For an authenticated instance the method marks the session
  synced and stores each current token that is there and not empty (a missing one leaves
  the stored value). If scheduling is requested and a check of \<open>scheduleRefreshToken\<close>
  fails, that is, \<open>refreshTokenExpiresIn\<close> or \<open>expiresIn\<close> as the code computes them is
  negative, the returned promise is rejected with
  \<open>Refresh Token Expired. No more token refreshes\<close> and no timer is armed; otherwise it is
  fulfilled with the current access token, and one timer is armed exactly when scheduling
  is requested. A parsed refresh token without \<open>exp\<close> passes the first check. For an
  instance that is not authenticated the session is cleared as \<open>clearSession\<close> clears it:
  the three stored tokens are removed, the auth store is cleared when a Pinia instance is
  active and the store exists, and the promise is fulfilled with the value
  \<open>Error('NOT_AUTHENTICATED')\<close>.
\<close>

theorem syncSession_outcome:
  assumes "syncSessionAndScheduleTokenRefresh isScheduleRefresh t1 t2 st = (p, st')"
  shows "if is_authenticated st
         then storage st' SessionSynced = Some ''true''
            \<and> storage st' KeyCloakToken =
                (if truthy (Option.bind (kc st) kc_token) then Option.bind (kc st) kc_token
                 else storage st KeyCloakToken)
            \<and> storage st' KeyCloakRefreshToken =
                (if truthy (Option.bind (kc st) kc_refreshToken) then Option.bind (kc st) kc_refreshToken
                 else storage st KeyCloakRefreshToken)
            \<and> storage st' KeyCloakIdToken =
                (if truthy (Option.bind (kc st) kc_idToken) then Option.bind (kc st) kc_idToken
                 else storage st KeyCloakIdToken)
            \<and> (if isScheduleRefresh \<and> (js_negative (refreshTokenExpiresIn t1 st) \<or> expiresIn t2 st < 0)
               then p = Rejected RefreshTokenExpired \<and> timers st' = timers st
               else p = Fulfilled (token_value (Option.bind (kc st) kc_token))
                  \<and> timers st' =
                      (if isScheduleRefresh
                       then timers st @ [(nextTimerId st,
                              \<lparr> delay_ms = expiresIn t2 st * 1000 - 10000, early_ms = 10000 \<rparr>)]
                       else timers st))
         else p = Fulfilled (ErrorValue ''NOT_AUTHENTICATED'')
            \<and> storage st' KeyCloakToken = None
            \<and> storage st' KeyCloakRefreshToken = None
            \<and> storage st' KeyCloakIdToken = None
            \<and> authStore st' =
                (if activePinia st then map_option AuthStore_clearSession (authStore st)
                 else authStore st)
            \<and> timers st' = timers st"
proof (cases "is_authenticated st")
  case False
  with assms have r: "p = Fulfilled (ErrorValue ''NOT_AUTHENTICATED'')" "st' = clearSession st"
    by (auto simp: syncSessionAndScheduleTokenRefresh_def)
  with False show ?thesis by (simp add: storage_clearSession authStore_clearSession)
next
  case True
  then obtain k where k: "kc st = Some k"
    by (auto simp: is_authenticated_def split: option.splits)
  from assms True have st': "storage st' = storage (syncSessionStorage st)"
    by (auto simp: syncSessionAndScheduleTokenRefresh_def scheduleRefreshTimer_def
        scheduleRefreshToken_cases Let_def split: if_splits)
  have stored: "storage st' SessionSynced = Some ''true''"
    "storage st' KeyCloakToken = (if truthy (kc_token k) then kc_token k else storage st KeyCloakToken)"
    "storage st' KeyCloakRefreshToken =
       (if truthy (kc_refreshToken k) then kc_refreshToken k else storage st KeyCloakRefreshToken)"
    "storage st' KeyCloakIdToken = (if truthy (kc_idToken k) then kc_idToken k else storage st KeyCloakIdToken)"
    using storage_syncSessionStorage [OF k] st' by simp_all
  have sched: "if isScheduleRefresh \<and> (js_negative (refreshTokenExpiresIn t1 st) \<or> expiresIn t2 st < 0)
               then p = Rejected RefreshTokenExpired \<and> timers st' = timers st
               else p = Fulfilled (token_value (kc_token k))
                  \<and> timers st' =
                      (if isScheduleRefresh
                       then timers st @ [(nextTimerId st,
                              \<lparr> delay_ms = expiresIn t2 st * 1000 - 10000, early_ms = 10000 \<rparr>)]
                       else timers st)"
    using assms True k
    by (auto simp: syncSessionAndScheduleTokenRefresh_def scheduleRefreshTimer_def
        scheduleRefreshToken_cases REFRESH_ATTEMPT_INTERVAL_def Let_def)
  from True k stored sched show ?thesis by simp
qed

text \<open>
  Witness for C4: the signed-in service at second \<open>1000\<close> (token \<open>A\<close> valid until second
  \<open>2000\<close>) with scheduling requested; the same service with a parsed refresh token that
  has no \<open>exp\<close>, where the token is returned and a timer armed as well; and the initial
  service, which has no instance.
\<close>

theorem syncSession_outcome_witness:
  "fst (syncSessionAndScheduleTokenRefresh True 1000000 1000000 (signed_in 2000 5000 0))
     = Fulfilled (StringValue ''A'')
   \<and> storage (snd (syncSessionAndScheduleTokenRefresh True 1000000 1000000 (signed_in 2000 5000 0)))
       KeyCloakToken = Some ''A''
   \<and> timers (snd (syncSessionAndScheduleTokenRefresh True 1000000 1000000 (signed_in 2000 5000 0)))
     = [(1, \<lparr> delay_ms = 990000, early_ms = 10000 \<rparr>)]
   \<and> fst (syncSessionAndScheduleTokenRefresh True 1000000 1000000 signed_in_no_refresh_exp)
     = Fulfilled (StringValue ''A'')
   \<and> timers (snd (syncSessionAndScheduleTokenRefresh True 1000000 1000000 signed_in_no_refresh_exp))
     = [(1, \<lparr> delay_ms = 990000, early_ms = 10000 \<rparr>)]
   \<and> fst (syncSessionAndScheduleTokenRefresh True 1000000 1000000 initial_state)
     = Fulfilled (ErrorValue ''NOT_AUTHENTICATED'')
   \<and> authStore (snd (syncSessionAndScheduleTokenRefresh True 1000000 1000000 initial_state)) = None"
proof -
  have a: "is_authenticated (signed_in 2000 5000 0)"
    by (simp add: is_authenticated_def example_defs)
  have m: "\<not> js_negative (refreshTokenExpiresIn 1000000 (signed_in 2000 5000 0))"
    "expiresIn 1000000 (signed_in 2000 5000 0) = 1000"
    by (simp_all add: refreshTokenExpiresIn_def expiresIn_def js_negative_def ceil_seconds_def example_defs)
  have f: "Option.bind (kc (signed_in 2000 5000 0)) kc_token = Some ''A''"
    "timers (signed_in 2000 5000 0) = []" "nextTimerId (signed_in 2000 5000 0) = 1"
    by (simp_all add: example_defs)
  have n: "\<not> is_authenticated initial_state" "\<not> activePinia initial_state"
    "authStore initial_state = None"
    by (simp_all add: is_authenticated_def initial_state_def)
  have a': "is_authenticated signed_in_no_refresh_exp"
    by (simp add: is_authenticated_def signed_in_no_refresh_exp_def example_defs)
  have m': "\<not> js_negative (refreshTokenExpiresIn 1000000 signed_in_no_refresh_exp)"
    "expiresIn 1000000 signed_in_no_refresh_exp = 1000"
    by (simp_all add: refreshTokenExpiresIn_def expiresIn_def js_negative_def ceil_seconds_def
        signed_in_no_refresh_exp_def example_defs)
  have f': "Option.bind (kc signed_in_no_refresh_exp) kc_token = Some ''A''"
    "timers signed_in_no_refresh_exp = []" "nextTimerId signed_in_no_refresh_exp = 1"
    by (simp_all add: signed_in_no_refresh_exp_def example_defs)
  from syncSession_outcome
      [where isScheduleRefresh = True and ?t1.0 = 1000000 and ?t2.0 = 1000000
         and st = "signed_in 2000 5000 0", OF prod.collapse [symmetric]]
    syncSession_outcome
      [where isScheduleRefresh = True and ?t1.0 = 1000000 and ?t2.0 = 1000000
         and st = initial_state, OF prod.collapse [symmetric]]
    syncSession_outcome
      [where isScheduleRefresh = True and ?t1.0 = 1000000 and ?t2.0 = 1000000
         and st = signed_in_no_refresh_exp, OF prod.collapse [symmetric]]
  show ?thesis
    by (simp add: a m f n a' m' f' truthy_def token_value_def)
qed

text \<open>
  Counterexample to C4 as stated: the instance is authenticated and scheduling is
  requested, but the access token expired at second \<open>1000\<close> and the clock reads second
  \<open>1500\<close>. The tokens are stored, and then the promise is rejected: the caller does not
  get the current access token, and no timer is armed.
\<close>

theorem syncSession_rejects_when_token_expired:
  "syncSessionAndScheduleTokenRefresh True 1500000 1500000 (signed_in 1000 5000 0)
     = (Rejected RefreshTokenExpired, syncSessionStorage (signed_in 1000 5000 0))"
  by (simp add: syncSessionAndScheduleTokenRefresh_def is_authenticated_def example_defs
      scheduleRefreshTimer_def scheduleRefreshToken_cases refreshTokenExpiresIn_def expiresIn_def
      js_negative_def ceil_seconds_def REFRESH_ATTEMPT_INTERVAL_def)

subsection \<open>initializeKeyCloak\<close>

text \<open>
  Claim C8, as amended. After \<open>initializeKeyCloak(idpHint)\<close> a login attempt made through
  the instance with an options object reaches the SDK's \<open>login\<close> with \<open>idpHint\<close> written
  into those options, whatever hint they held; a login attempt without options reaches it
  without options, so without the hint.
\<close>

theorem login_hint_only_with_options:
  assumes "initializeKeyCloak idpHint st = (kcOptions, st')"
  shows "login_through st' (Some opts) = Some (ProviderLogin (Some (opts\<lparr> lo_idpHint := Some idpHint \<rparr>)))
       \<and> login_through st' None = Some (ProviderLogin None)"
proof -
  from assms have "kc st' =
      Some ((new_Keycloak (keycloakConfigUrl (clearSession st)))
              \<lparr> kc_login := login_with_hint idpHint (kc_login (new_Keycloak (keycloakConfigUrl (clearSession st)))) \<rparr>)"
    by (auto simp: initializeKeyCloak_def Let_def)
  then show ?thesis
    by (simp add: login_through_def login_with_hint_def new_Keycloak_def)
qed

text \<open>Witness for C8: hint \<open>idir\<close>, and a login whose options ask for hint \<open>bceid\<close>.\<close>

theorem login_hint_only_with_options_witness:
  "login_through (snd (initializeKeyCloak ''idir'' initial_state))
     (Some \<lparr> lo_idpHint = Some ''bceid'', lo_redirectUri = None, lo_prompt = None \<rparr>)
   = Some (ProviderLogin (Some \<lparr> lo_idpHint = Some ''idir'', lo_redirectUri = None, lo_prompt = None \<rparr>))"
  using login_hint_only_with_options
      [where idpHint = "''idir''" and st = initial_state
         and opts = "\<lparr> lo_idpHint = Some ''bceid'', lo_redirectUri = None, lo_prompt = None \<rparr>",
       OF prod.collapse [symmetric]]
  by simp

text \<open>
  Counterexample to C8 as stated: after \<open>initializeKeyCloak('idir')\<close> a login attempt without
  options goes to the SDK's \<open>login\<close> with no options at all; the hint is not injected.
\<close>

theorem login_without_options_has_no_hint:
  "login_through (snd (initializeKeyCloak ''idir'' initial_state)) None = Some (ProviderLogin None)"
  by (simp add: initializeKeyCloak_def login_through_def login_with_hint_def new_Keycloak_def Let_def)

subsection \<open>getUserInfo\<close>

text \<open>
  Claim C9, as amended. \<open>getUserInfo\<close> decodes the stored access token only while nothing,
  or an object without keys, is cached, and caches what the decoder returns. While a
  decoded token with a key is cached it returns that token's claims and leaves the state
  as it is, whatever access token is stored; \<open>syncSessionStorage\<close> and \<open>clearSession\<close>,
  which change the stored access token, leave the cache untouched.
\<close>

theorem getUserInfo_cache_never_invalidated:
  "(parsedToken st = Some t \<and> object_keys_length t \<noteq> 0 \<longrightarrow>
      getUserInfo decodeKCToken st = (profile_of (Some t), st))
   \<and> (cache_is_empty (parsedToken st) \<longrightarrow>
      getUserInfo decodeKCToken st =
        (profile_of (decodeKCToken (storage st KeyCloakToken)),
         st\<lparr> parsedToken := decodeKCToken (storage st KeyCloakToken) \<rparr>))
   \<and> parsedToken (syncSessionStorage st) = parsedToken st
   \<and> parsedToken (clearSession st) = parsedToken st"
proof (intro conjI impI)
  assume "parsedToken st = Some t \<and> object_keys_length t \<noteq> 0"
  then show "getUserInfo decodeKCToken st = (profile_of (Some t), st)"
    by (simp add: getUserInfo_def cache_is_empty_def)
next
  assume "cache_is_empty (parsedToken st)"
  then show "getUserInfo decodeKCToken st =
        (profile_of (decodeKCToken (storage st KeyCloakToken)),
         st\<lparr> parsedToken := decodeKCToken (storage st KeyCloakToken) \<rparr>)"
    by (simp add: getUserInfo_def getFromSession_def)
qed simp_all

text \<open>
  Witness for C9: with token \<open>A\<close> stored and nothing cached, \<open>getUserInfo\<close> decodes \<open>A\<close>;
  called again on the resulting state, it answers from the cache.
\<close>

theorem getUserInfo_cache_never_invalidated_witness:
  "getUserInfo subject_decoder stored_A
     = (profile_of (subject_decoder (Some ''A'')), stored_A\<lparr> parsedToken := subject_decoder (Some ''A'') \<rparr>)
   \<and> getUserInfo subject_decoder (stored_A\<lparr> parsedToken := subject_decoder (Some ''A'') \<rparr>)
     = (profile_of (subject_decoder (Some ''A'')), stored_A\<lparr> parsedToken := subject_decoder (Some ''A'') \<rparr>)"
proof -
  have e: "cache_is_empty (parsedToken stored_A)" "storage stored_A KeyCloakToken = Some ''A''"
    by (simp_all add: cache_is_empty_def example_defs)
  obtain t where t: "subject_decoder (Some ''A'') = Some t" "object_keys_length t \<noteq> 0"
    by (simp add: subject_decoder_def object_keys_length_def present_def)
  have c: "parsedToken (stored_A\<lparr> parsedToken := subject_decoder (Some ''A'') \<rparr>) = Some t
             \<and> object_keys_length t \<noteq> 0"
    using t by simp
  from getUserInfo_cache_never_invalidated [of stored_A t subject_decoder]
    getUserInfo_cache_never_invalidated
      [of "stored_A\<lparr> parsedToken := subject_decoder (Some ''A'') \<rparr>" t subject_decoder]
  show ?thesis using e c t by auto
qed

text \<open>
  Counterexample to C9 as stated: \<open>getUserInfo\<close> has cached the claims of token \<open>A\<close>; the
  provider then issues token \<open>B\<close> and \<open>syncSessionStorage\<close> stores it. The next
  \<open>getUserInfo\<close> still returns the subject of \<open>A\<close>, not claims of the new access token.
\<close>

theorem getUserInfo_stale_after_token_change:
  "storage (syncSessionStorage ((snd (getUserInfo subject_decoder stored_A))\<lparr> kc := kc signed_in_B \<rparr>))
     KeyCloakToken = Some ''B''
   \<and> keycloakGuid (fst (getUserInfo subject_decoder
        (syncSessionStorage ((snd (getUserInfo subject_decoder stored_A))\<lparr> kc := kc signed_in_B \<rparr>))))
     = Some ''A''"
  by (simp add: getUserInfo_def cache_is_empty_def getFromSession_def Let_def example_defs
      subject_decoder_def syncSessionStorage_def store_if_truthy_def truthy_def or_empty_def
      addToSession_def profile_of_def object_keys_length_def present_def)

subsection \<open>refreshToken\<close>

text \<open>
  Claim C10. In every call of \<open>refreshToken\<close> that reaches the provider, the caller's
  promise is already fulfilled with \<open>undefined\<close> when the synchronous part ends, before
  \<open>updateToken\<close> settles, and the state is as it was. It stays so however \<open>updateToken\<close>
  settles; when \<open>updateToken\<close> is rejected, the \<open>Could not refresh Token\<close> error is the
  value of the promise the inner chain ends in, which the caller never receives.
\<close>

theorem refreshToken_promise_settles_first:
  assumes "refreshToken isForceRefresh t st = (p, Some minValidity, st1)"
  shows "p = Fulfilled Undefined \<and> st1 = st
       \<and> fst (refreshToken_run decodeKCToken isForceRefresh outcome t t1 t2 st) = Fulfilled Undefined
       \<and> fst (snd (refreshToken_run decodeKCToken isForceRefresh (RejectsWith e) t t1 t2 st))
           = Some (Fulfilled (ErrorValue ''Could not refresh Token''))"
proof -
  from assms have sync: "p = Fulfilled Undefined" "st1 = st"
    by (auto simp: refreshToken_def Let_def split: if_splits option.splits)
  obtain q dropped st2 where inner: "refreshToken_settled decodeKCToken outcome t1 t2 st = (q, dropped, st2)"
    by (cases "refreshToken_settled decodeKCToken outcome t1 t2 st") auto
  have caller: "fst (refreshToken_run decodeKCToken isForceRefresh outcome t t1 t2 st) = Fulfilled Undefined"
    using assms sync inner by (simp add: refreshToken_run_def)
  have chain: "fst (snd (refreshToken_run decodeKCToken isForceRefresh (RejectsWith e) t t1 t2 st))
           = Some (Fulfilled (ErrorValue ''Could not refresh Token''))"
    using assms sync by (simp add: refreshToken_run_def refreshToken_settled_def)
  from sync caller chain show ?thesis by simp
qed

text \<open>
  Witness for C10: a forced refresh of the signed-in service reaches the provider with
  \<open>minValidity = -1\<close>; the provider rejects it with a network error.
\<close>

theorem refreshToken_promise_settles_first_witness:
  "refreshToken True 1000000 (signed_in 2000 5000 0) = (Fulfilled Undefined, Some (- 1), signed_in 2000 5000 0)
   \<and> fst (refreshToken_run subject_decoder True (RejectsWith (ErrorValue ''Network Error''))
            1000000 1001000 1001000 (signed_in 2000 5000 0)) = Fulfilled Undefined
   \<and> fst (snd (refreshToken_run subject_decoder True (RejectsWith (ErrorValue ''Network Error''))
            1000000 1001000 1001000 (signed_in 2000 5000 0)))
       = Some (Fulfilled (ErrorValue ''Could not refresh Token''))"
proof -
  have r: "refreshToken True 1000000 (signed_in 2000 5000 0)
             = (Fulfilled Undefined, Some (- 1), signed_in 2000 5000 0)"
    by (simp add: refreshToken_def example_defs)
  from refreshToken_promise_settles_first
      [OF r, of subject_decoder "RejectsWith (ErrorValue ''Network Error'')" 1001000 1001000
         "ErrorValue ''Network Error''"]
  show ?thesis using r by simp
qed

text \<open>The \<open>minValidity\<close> of a call that is not forced and passes the guard.\<close>

lemma refreshToken_minValidity:
  assumes "kc st = Some k" and "kc_tokenParsed k = Some tp" and "exp tp = Some e" and "e \<noteq> 0"
    and "kc_timeSkew k = Some skew" and "skew \<noteq> 0"
  shows "refreshToken False t st = (Fulfilled Undefined, Some (e - ceil_seconds t + skew + 100), st)"
  using assms
  by (simp add: refreshToken_def tokenParsed_exp_def timeSkew_of_def truthy_number_def number_of_def)

lemma refreshToken_forced:
  assumes "kc st = Some k"
  shows "refreshToken True t st = (Fulfilled Undefined, Some (- 1), st)"
  using assms by (simp add: refreshToken_def)

text \<open>
  Claim C5, at the input where the code leaves it: the parsed expiry is second \<open>1000\<close>,
  the clock reads second \<open>900\<close>, the skew is established and is \<open>0\<close>, and the refresh is
  not forced. By the claim \<open>updateToken\<close> is called with \<open>1000 - 900 + 0 + 100 = 200\<close>;
  the code's guard \<^verbatim>\<open>!this.kc.timeSkew\<close> takes the skew \<open>0\<close> for a missing one and the
  call returns without reaching the provider.
\<close>

theorem refreshToken_zero_skew_is_noop:
  "refreshToken False 900000 (signed_in 1000 5000 0) = (Fulfilled Undefined, None, signed_in 1000 5000 0)"
  by (simp add: refreshToken_def example_defs tokenParsed_exp_def timeSkew_of_def truthy_number_def)

text \<open>The same call with a skew of one second does reach the provider, with 201.\<close>

theorem refreshToken_zero_skew_is_noop_witness:
  "fst (snd (refreshToken False 900000 (signed_in 1000 5000 0))) = None
   \<and> fst (snd (refreshToken False 900000 (signed_in 1000 5000 1))) = Some 201"
proof -
  have "fst (snd (refreshToken False 900000 (signed_in 1000 5000 0))) = None"
    using refreshToken_zero_skew_is_noop by simp
  moreover have "fst (snd (refreshToken False 900000 (signed_in 1000 5000 1))) = Some 201"
    by (simp add: refreshToken_def example_defs tokenParsed_exp_def timeSkew_of_def truthy_number_def
        number_of_def ceil_seconds_def)
  ultimately show ?thesis by simp
qed

text \<open>
  Claim C6, at the input where the code leaves it: a forced refresh of the signed-in
  service, rejected by the provider. The session is cleared and nothing is left rejected,
  but the caller's promise was fulfilled with \<open>undefined\<close> before the rejection: the
  failure value ends in the inner chain and no failure reaches the caller.
\<close>

theorem refreshToken_failure_not_surfaced:
  "refreshToken_run subject_decoder True (RejectsWith (ErrorValue ''Network Error''))
     1000000 1001000 1001000 (signed_in 2000 5000 0)
   = (Fulfilled Undefined,
      Some (Fulfilled (ErrorValue ''Could not refresh Token'')),
      [Fulfilled Undefined],
      clearSession (signed_in 2000 5000 0))"
  by (simp add: refreshToken_run_def refreshToken_def refreshToken_settled_def example_defs)

theorem refreshToken_failure_not_surfaced_witness:
  "fst (refreshToken_run subject_decoder True (RejectsWith (ErrorValue ''Network Error''))
     1000000 1001000 1001000 (signed_in 2000 5000 0)) = Fulfilled Undefined"
  using refreshToken_failure_not_surfaced by simp

subsection \<open>verifyRoles\<close>

lemma some_role_included_Some:
  "some_role_included (Some rs) wanted = Return (set wanted \<inter> set rs \<noteq> {})"
  by (induction wanted) auto

text \<open>For a user whose profile has a roles array, \<open>verifyRoles\<close> is the table of the spec.\<close>

lemma verifyRoles_with_roles:
  assumes "roles (fst (getUserInfo decodeKCToken st)) = Some rs"
  shows "fst (verifyRoles decodeKCToken None None st) = Return True"
    and "fst (verifyRoles decodeKCToken (Some allowed) disabledRoles st) = Return (set allowed \<inter> set rs \<noteq> {})"
    and "fst (verifyRoles decodeKCToken None (Some disabled) st) = Return (set disabled \<inter> set rs = {})"
proof -
  obtain userInfo st1 where g: "getUserInfo decodeKCToken st = (userInfo, st1)"
    by (cases "getUserInfo decodeKCToken st") auto
  with assms have r: "roles userInfo = Some rs" by simp
  show "fst (verifyRoles decodeKCToken None None st) = Return True"
    by (simp add: verifyRoles_def)
  show "fst (verifyRoles decodeKCToken (Some allowed) disabledRoles st) = Return (set allowed \<inter> set rs \<noteq> {})"
    using g r by (simp add: verifyRoles_def some_role_included_Some)
  show "fst (verifyRoles decodeKCToken None (Some disabled) st) = Return (set disabled \<inter> set rs = {})"
    using g r by (simp add: verifyRoles_def some_role_included_Some negated_def)
qed

lemma verifyRoles_empty_allowed:
  "fst (verifyRoles decodeKCToken (Some []) disabledRoles st) = Return False"
  by (simp add: verifyRoles_def split: prod.splits)

text \<open>
  Claim C7, at the input where the code leaves it: only \<open>disabledRoles = ['banned']\<close> is
  supplied, and the user's token (subject \<open>A\<close>) has no \<open>realm_access\<close>, so the profile has
  no roles array. The user's roles do not meet \<open>banned\<close>, so by the claim the result is
  \<open>true\<close>; the code reads \<open>includes\<close> of \<open>undefined\<close> and throws a \<open>TypeError\<close>.
\<close>

theorem verifyRoles_without_roles_array_throws:
  "fst (verifyRoles subject_decoder None (Some [''banned'']) stored_A)
   = Throw (TypeErrorValue ''Cannot read properties of undefined (reading includes)'')"
  by (simp add: verifyRoles_def getUserInfo_def cache_is_empty_def getFromSession_def Let_def
      example_defs subject_decoder_def profile_of_def negated_def)

subsection \<open>logout\<close>

lemma logout_without_token:
  assumes "\<not> truthy (storage st KeyCloakToken)"
  shows "logout redirectUrl st = (Fulfilled Undefined, None, st)"
  using assms by (simp add: logout_def getFromSession_def or_undefined_def truthy_def)

text \<open>When \<open>logout\<close> starts \<open>kc.init\<close>, storage holds the guard flag and nothing else.\<close>

lemma logout_clears_before_init:
  assumes "logout redirectUrl st = (p, Some (kcOptions, c), st')"
  shows "p = Pending \<and> storage st' = [PreventStorageSync \<mapsto> ''true'']"
  using assms
  by (auto simp: logout_def Let_def ConfigHelper_clearSession_def addToSession_def string_of_bool_def
      split: if_splits)

lemma logout_rejects_after_authenticated_init:
  assumes "truthy (storage st KeyCloakToken)"
  shows "fst (logout_run origin app_path redirectUrl (Resolves True) (RejectsWith e) st) = Rejected e"
  using assms
  by (simp add: logout_run_def logout_def logout_init_settled_def logout_logout_settled_def
      getFromSession_def or_undefined_def reject_def Let_def)

text \<open>
  Claim C3, at the input where the code leaves it: access token \<open>A\<close> is stored, \<open>kc.init\<close>
  resolves with \<open>authenticated = false\<close>, and the provider's \<open>logout\<close> call is rejected. The
  callback has called \<open>resolve()\<close> and gone on to \<open>kc.logout\<close>; the later \<open>reject(error)\<close> finds
  the promise settled. The caller's promise is fulfilled, not rejected with the error.
\<close>

theorem logout_failure_after_unauthenticated_init_is_dropped:
  "logout_run ''https://app.example'' ''/'' None (Resolves False)
     (RejectsWith (ErrorValue ''logout failed'')) stored_A
   = (Fulfilled Undefined,
      stored_A\<lparr> kc := Some (new_Keycloak None), storage := [PreventStorageSync \<mapsto> ''true''] \<rparr>)"
  by (simp add: logout_run_def logout_def logout_init_settled_def logout_logout_settled_def
      example_defs getFromSession_def or_undefined_def truthy_def resolve_def reject_def Let_def
      ConfigHelper_clearSession_def addToSession_def string_of_bool_def)

end
